theory Spec2Isabelle
  imports Complex_Main "HOL-Library.Word"
begin

unbundle bit_operations_syntax

section \<open>Python values and exceptions\<close>

text \<open>
  The module \<^verbatim>\<open>MovebankAPI.py\<close> is embedded function by function. Every exception the
  source can raise is a value of \<open>pyerror\<close>; a computation that may raise returns
  \<open>pyerror + 'a\<close>, with \<open>Inl\<close> for the exception. Python's \<^verbatim>\<open>float\<close> is idealised as
  \<open>real\<close>: rounding of IEEE doubles, infinities and NaN are outside the model. Python's
  \<^verbatim>\<open>int\<close> is \<open>int\<close>, \<^verbatim>\<open>str\<close> and \<^verbatim>\<open>bytes\<close> are \<open>string\<close> (a list of 8-bit characters).
  The calls to \<^verbatim>\<open>print\<close> are not modelled.
\<close>

datatype pyerror =
    IndexError
  | KeyError string
  | ValueError
  | TypeError
  | ZeroDivisionError
  | OverflowError
  | UnicodeDecodeError
  | RequestException

type_synonym 'a result = "pyerror + 'a"

text \<open>\<^verbatim>\<open>d[k]\<close> on a dictionary: \<^verbatim>\<open>KeyError\<close> when the key is absent.\<close>

definition getitem :: "(string \<rightharpoonup> 'v) \<Rightarrow> string \<Rightarrow> 'v result" where
  "getitem d k = (case d k of None \<Rightarrow> Inl (KeyError k) | Some v \<Rightarrow> Inr v)"

section \<open>Calibration constants of \<^verbatim>\<open>transformRawACC\<close>\<close>

text \<open>
  Lines 149 to 152: \<^verbatim>\<open>unitfactor\<close> is 1 for the unit \<^verbatim>\<open>'g'\<close> and 9.81 for every other
  unit string.
\<close>

definition unitfactor :: "string \<Rightarrow> real" where
  "unitfactor unit = (if unit = ''g'' then 1 else 981 / 100)"

text \<open>
  Lines 155 to 163: the slope starts at 0.001 and is overwritten by the branch of the
  tag identifier; \<^verbatim>\<open>sensitivity\<close> is a string and only the value \<^verbatim>\<open>'low'\<close> is tested.
\<close>

definition slope :: "int \<Rightarrow> string \<Rightarrow> real" where
  "slope tag_local_identifier sensitivity =
     (if tag_local_identifier \<le> 2241 then
        (if sensitivity = ''low'' then 27 / 10000 else 1 / 1000)
      else if 2242 \<le> tag_local_identifier \<and> tag_local_identifier \<le> 4117 then 22 / 10000
      else 1 / 512)"

section \<open>Library functions the module calls\<close>

text \<open>
  The parsers \<^verbatim>\<open>float\<close> and \<^verbatim>\<open>int\<close> and the \<^verbatim>\<open>datetime\<close> operations belong to the
  Python standard library, not to the module. The embedding takes them as a parameter:
  a record of functions, in which \<open>None\<close> stands for the \<^verbatim>\<open>ValueError\<close> of a failed
  parse. The theorems below hold for every such record; the closed examples use the
  reference instance \<open>cpython\<close> defined further down.
\<close>

record ('dt, 'td) pylib =
  py_float :: "string \<Rightarrow> real option"
  py_int :: "string \<Rightarrow> int option"
  strptime :: "string \<Rightarrow> string \<Rightarrow> 'dt option"
  strftime :: "'dt \<Rightarrow> string \<Rightarrow> string"
  timedelta :: "real \<Rightarrow> 'td result"
  dt_add :: "'dt \<Rightarrow> 'td \<Rightarrow> 'dt result"

definition rbind :: "'a result \<Rightarrow> ('a \<Rightarrow> 'b result) \<Rightarrow> 'b result" where
  "rbind m f = (case m of Inl e \<Rightarrow> Inl e | Inr x \<Rightarrow> f x)"

definition value_error :: "'a option \<Rightarrow> 'a result" where
  "value_error m = (case m of None \<Rightarrow> Inl ValueError | Some x \<Rightarrow> Inr x)"

text \<open>A list comprehension whose element expression may raise stops at the first exception.\<close>

fun mapM :: "('a \<Rightarrow> 'b result) \<Rightarrow> 'a list \<Rightarrow> 'b list result" where
  "mapM f [] = Inr []"
| "mapM f (x # xs) =
     (case f x of
        Inl e \<Rightarrow> Inl e
      | Inr y \<Rightarrow> (case mapM f xs of Inl e \<Rightarrow> Inl e | Inr ys \<Rightarrow> Inr (y # ys)))"

text \<open>
  \<^verbatim>\<open>str.split()\<close> without arguments: the maximal runs of non-whitespace characters.
  Within the 8-bit characters of the model the whitespace is what \<^verbatim>\<open>str.isspace\<close>
  accepts below 128.
\<close>

definition isspace :: "char \<Rightarrow> bool" where
  "isspace c = (let n = of_char c :: int in (9 \<le> n \<and> n \<le> 13) \<or> (28 \<le> n \<and> n \<le> 32))"

fun split_from :: "string \<Rightarrow> string \<Rightarrow> string list" where
  "split_from cur [] = (if cur = [] then [] else [cur])"
| "split_from cur (c # cs) =
     (if isspace c then (if cur = [] then split_from [] cs else cur # split_from [] cs)
      else split_from (cur @ [c]) cs)"

definition split :: "string \<Rightarrow> string list" where
  "split s = split_from [] s"

section \<open>\<^verbatim>\<open>transformRawACC\<close>\<close>

text \<open>
  A raw event is a row of \<^verbatim>\<open>csv.DictReader\<close>: a dictionary from field names to strings.
  An emitted sample is the tuple \<^verbatim>\<open>(ts, deployment, x, y, z)\<close>.
\<close>

type_synonym event = "string \<rightharpoonup> string"
type_synonym sample = "string \<times> string \<times> real \<times> real \<times> real"

definition ts_format :: string where
  "ts_format = ''%Y-%m-%d %H:%M:%S.%f''"

text \<open>
  \<^verbatim>\<open>list(zip(it, it, it))\<close> over one shared iterator: consecutive triples; what is left
  when fewer than three elements remain is dropped.
\<close>

fun triples :: "'a list \<Rightarrow> ('a \<times> 'a \<times> 'a) list" where
  "triples (a # b # c # xs) = (a, b, c) # triples xs"
| "triples xs = []"

text \<open>
  Lines 166 to 185, the body of the loop over the events, with the slope and the unit
  factor computed before the loop. The statements raise in the order of the source: the
  lookups of the keys, \<^verbatim>\<open>float\<close>, the division, \<^verbatim>\<open>strptime\<close>, \<^verbatim>\<open>int\<close> on each token, and
  the \<^verbatim>\<open>timedelta\<close> and the addition for each index. \<^verbatim>\<open>int(len(raw) / 3)\<close> is the integer
  quotient (the float division is exact on list lengths). The products of the axis values
  are products of reals: they do not raise.
\<close>

definition acc_event ::
  "('dt, 'td) pylib \<Rightarrow> real \<Rightarrow> real \<Rightarrow> event \<Rightarrow> sample list result" where
  "acc_event lib slp uf event =
     rbind (getitem event ''deployment_id'') (\<lambda>deploym.
     rbind (getitem event ''acceleration_sampling_frequency_per_axis'') (\<lambda>freq.
     rbind (value_error (py_float lib freq)) (\<lambda>f.
     rbind (if f = 0 then Inl ZeroDivisionError else Inr (1 / f)) (\<lambda>seconds.
     rbind (getitem event ''timestamp'') (\<lambda>timestamp.
     rbind (value_error (strptime lib timestamp ts_format)) (\<lambda>parsedts.
     rbind (getitem event ''accelerations_raw'') (\<lambda>accelerations_raw.
     rbind (mapM (\<lambda>tok. value_error (py_int lib tok)) (split accelerations_raw)) (\<lambda>raw.
     rbind (mapM (\<lambda>x. rbind (timedelta lib (seconds * real x)) (dt_add lib parsedts))
              [0 ..< length raw div 3]) (\<lambda>ts.
     Inr (map (\<lambda>(a, b0, b1, b2).
                 (strftime lib a ts_format, deploym,
                  real_of_int (b0 - 2048) * slp * uf,
                  real_of_int (b1 - 2048) * slp * uf,
                  real_of_int (b2 - 2048) * slp * uf))
            (zip ts (triples raw))))))))))))"

text \<open>The loop of lines 165 to 186: \<^verbatim>\<open>out.append(transformed)\<close> for each event in turn.\<close>

fun acc_loop ::
  "('dt, 'td) pylib \<Rightarrow> real \<Rightarrow> real \<Rightarrow> event list \<Rightarrow> sample list list
     \<Rightarrow> sample list list result" where
  "acc_loop lib slp uf [] out = Inr out"
| "acc_loop lib slp uf (event # rest) out =
     (case acc_event lib slp uf event of
        Inl e \<Rightarrow> Inl e
      | Inr transformed \<Rightarrow> acc_loop lib slp uf rest (out @ [transformed]))"

text \<open>
  \<^verbatim>\<open>transformRawACC(accevents, unit, sensitivity)\<close>. Line 154 reads the tag identifier
  of \<^verbatim>\<open>accevents[0]\<close>: \<^verbatim>\<open>IndexError\<close> on the empty list.
\<close>

definition transformRawACC ::
  "('dt, 'td) pylib \<Rightarrow> event list \<Rightarrow> string \<Rightarrow> string \<Rightarrow> sample list list result" where
  "transformRawACC lib accevents unit sensitivity =
     (case accevents of
        [] \<Rightarrow> Inl IndexError
      | first # _ \<Rightarrow>
          rbind (getitem first ''tag_local_identifier'') (\<lambda>tag.
          rbind (value_error (py_int lib tag)) (\<lambda>tag_local_identifier.
          acc_loop lib (slope tag_local_identifier sensitivity) (unitfactor unit)
            accevents [])))"

section \<open>\<^verbatim>\<open>transformRawGPS\<close>\<close>

text \<open>
  The inner function \<^verbatim>\<open>transform\<close> overwrites the coordinate fields of the event with
  floats, so the values of its dictionary are strings or floats. \<^verbatim>\<open>len\<close> of a float
  raises \<^verbatim>\<open>TypeError\<close>; \<^verbatim>\<open>float\<close> of a float is that float. The assignments change the
  dictionary of the caller; the model keeps the updated dictionary inside the call, where
  the returned tuple is read from it.
\<close>

datatype pyval = PyStr string | PyFloat real

type_synonym gpsevent = "string \<rightharpoonup> pyval"

fun len :: "pyval \<Rightarrow> nat result" where
  "len (PyStr s) = Inr (length s)"
| "len (PyFloat r) = Inl TypeError"

fun float_of :: "('dt, 'td) pylib \<Rightarrow> pyval \<Rightarrow> real result" where
  "float_of lib (PyStr s) = value_error (py_float lib s)"
| "float_of lib (PyFloat r) = Inr r"

text \<open>
  One statement of the \<^verbatim>\<open>try\<close> block, for the key \<open>k\<close>:
  \<^verbatim>\<open>if len(e[k]) > 0: e[k] = float(e[k])\<close>. The result is the updated dictionary, or the
  exception.
\<close>

definition convert_field :: "('dt, 'td) pylib \<Rightarrow> gpsevent \<Rightarrow> string \<Rightarrow> gpsevent result" where
  "convert_field lib e k =
     rbind (getitem e k) (\<lambda>v.
     rbind (len v) (\<lambda>n.
       if n > 0 then
         rbind (getitem e k) (\<lambda>v'.
         rbind (float_of lib v') (\<lambda>r. Inr (e(k \<mapsto> PyFloat r))))
       else Inr e))"

text \<open>
  Lines 124 to 130: both statements are inside one \<^verbatim>\<open>try\<close> with a bare \<^verbatim>\<open>except\<close>, which
  catches every exception and goes on. The dictionary keeps the assignments made before
  the exception was raised.
\<close>

definition try_convert :: "('dt, 'td) pylib \<Rightarrow> gpsevent \<Rightarrow> gpsevent" where
  "try_convert lib e =
     (case convert_field lib e ''location_lat'' of
        Inl err \<Rightarrow> e
      | Inr e1 \<Rightarrow>
          (case convert_field lib e1 ''location_long'' of
             Inl err \<Rightarrow> e1
           | Inr e2 \<Rightarrow> e2))"

text \<open>Lines 123 to 132: the \<^verbatim>\<open>return\<close> reads the four keys outside the \<^verbatim>\<open>try\<close>.\<close>

definition transform ::
  "('dt, 'td) pylib \<Rightarrow> gpsevent \<Rightarrow> (pyval \<times> pyval \<times> pyval \<times> pyval) result" where
  "transform lib e0 =
     (let e = try_convert lib e0 in
      rbind (getitem e ''timestamp'') (\<lambda>ts.
      rbind (getitem e ''deployment_id'') (\<lambda>deployment_id.
      rbind (getitem e ''location_lat'') (\<lambda>lat.
      rbind (getitem e ''location_long'') (\<lambda>long.
      Inr (ts, deployment_id, lat, long))))))"

definition transformRawGPS ::
  "('dt, 'td) pylib \<Rightarrow> gpsevent list \<Rightarrow> (pyval \<times> pyval \<times> pyval \<times> pyval) list result" where
  "transformRawGPS lib gpsevents = mapM (transform lib) gpsevents"

section \<open>\<^verbatim>\<open>hashlib.md5\<close>, \<^verbatim>\<open>str\<close> of bytes and UTF-8\<close>

text \<open>
  MD5 as RFC 1321 defines it, on bytes; \<open>hexdigest\<close> is the digest in lowercase
  hexadecimal, as \<^verbatim>\<open>hashlib\<close> returns it.
\<close>

type_synonym u32 = "32 word"

definition md5_K :: "u32 list" where
  "md5_K =
     [0xD76AA478, 0xE8C7B756, 0x242070DB, 0xC1BDCEEE,
      0xF57C0FAF, 0x4787C62A, 0xA8304613, 0xFD469501,
      0x698098D8, 0x8B44F7AF, 0xFFFF5BB1, 0x895CD7BE,
      0x6B901122, 0xFD987193, 0xA679438E, 0x49B40821,
      0xF61E2562, 0xC040B340, 0x265E5A51, 0xE9B6C7AA,
      0xD62F105D, 0x02441453, 0xD8A1E681, 0xE7D3FBC8,
      0x21E1CDE6, 0xC33707D6, 0xF4D50D87, 0x455A14ED,
      0xA9E3E905, 0xFCEFA3F8, 0x676F02D9, 0x8D2A4C8A,
      0xFFFA3942, 0x8771F681, 0x6D9D6122, 0xFDE5380C,
      0xA4BEEA44, 0x4BDECFA9, 0xF6BB4B60, 0xBEBFBC70,
      0x289B7EC6, 0xEAA127FA, 0xD4EF3085, 0x04881D05,
      0xD9D4D039, 0xE6DB99E5, 0x1FA27CF8, 0xC4AC5665,
      0xF4292244, 0x432AFF97, 0xAB9423A7, 0xFC93A039,
      0x655B59C3, 0x8F0CCC92, 0xFFEFF47D, 0x85845DD1,
      0x6FA87E4F, 0xFE2CE6E0, 0xA3014314, 0x4E0811A1,
      0xF7537E82, 0xBD3AF235, 0x2AD7D2BB, 0xEB86D391]"

definition md5_s :: "nat list" where
  "md5_s =
     [7, 12, 17, 22, 7, 12, 17, 22, 7, 12, 17, 22, 7, 12, 17, 22,
      5, 9, 14, 20, 5, 9, 14, 20, 5, 9, 14, 20, 5, 9, 14, 20,
      4, 11, 16, 23, 4, 11, 16, 23, 4, 11, 16, 23, 4, 11, 16, 23,
      6, 10, 15, 21, 6, 10, 15, 21, 6, 10, 15, 21, 6, 10, 15, 21]"

fun le_bytes :: "nat \<Rightarrow> int \<Rightarrow> int list" where
  "le_bytes 0 v = []"
| "le_bytes (Suc k) v = (v mod 256) # le_bytes k (v div 256)"

definition md5_pad :: "int list \<Rightarrow> int list" where
  "md5_pad bs =
     bs @ [128] @ replicate ((119 - length bs mod 64) mod 64) 0
        @ le_bytes 8 (8 * int (length bs))"

fun le_words :: "int list \<Rightarrow> u32 list" where
  "le_words (b0 # b1 # b2 # b3 # bs) =
     word_of_int (b0 + 256 * (b1 + 256 * (b2 + 256 * b3))) # le_words bs"
| "le_words bs = []"

fun chunks :: "nat \<Rightarrow> 'a list \<Rightarrow> 'a list list" where
  "chunks 0 xs = []"
| "chunks (Suc n) xs = take 16 xs # chunks n (drop 16 xs)"

definition md5_step :: "u32 list \<Rightarrow> u32 \<times> u32 \<times> u32 \<times> u32 \<Rightarrow> nat \<Rightarrow> u32 \<times> u32 \<times> u32 \<times> u32" where
  "md5_step m st i =
     (case st of (a, b, c, d) \<Rightarrow>
        let (f, g) =
              (if i < 16 then ((b AND c) OR (NOT b AND d), i)
               else if i < 32 then ((d AND b) OR (NOT d AND c), (5 * i + 1) mod 16)
               else if i < 48 then (b XOR c XOR d, (3 * i + 5) mod 16)
               else (c XOR (b OR NOT d), (7 * i) mod 16));
            f' = f + a + md5_K ! i + m ! g
        in (d, b + word_rotl (md5_s ! i) f', b, c))"

definition md5_block :: "u32 \<times> u32 \<times> u32 \<times> u32 \<Rightarrow> u32 list \<Rightarrow> u32 \<times> u32 \<times> u32 \<times> u32" where
  "md5_block h m =
     (case h of (a0, b0, c0, d0) \<Rightarrow>
        (case foldl (md5_step m) h [0 ..< 64] of
           (a, b, c, d) \<Rightarrow> (a0 + a, b0 + b, c0 + c, d0 + d)))"

definition md5 :: "string \<Rightarrow> int list" where
  "md5 msg =
     (let ws = le_words (md5_pad (map of_char msg));
          h = foldl md5_block (0x67452301, 0xEFCDAB89, 0x98BADCFE, 0x10325476)
                (chunks (length ws div 16) ws)
      in case h of (a, b, c, d) \<Rightarrow>
           le_bytes 4 (uint a) @ le_bytes 4 (uint b) @ le_bytes 4 (uint c) @ le_bytes 4 (uint d))"

definition hexchar :: "int \<Rightarrow> char" where
  "hexchar n = ''0123456789abcdef'' ! nat (n mod 16)"

definition hex_byte :: "int \<Rightarrow> string" where
  "hex_byte b = [hexchar (b div 16), hexchar b]"

definition hexdigest :: "int list \<Rightarrow> string" where
  "hexdigest digest = concat (map hex_byte digest)"

text \<open>
  \<^verbatim>\<open>str(b)\<close> of a bytes object is its \<^verbatim>\<open>repr\<close>: the letter b, a quote, the bytes with
  the quote, the backslash, tab, newline, carriage return and every byte outside the
  printable ASCII range escaped, and the quote again. The quote is the double quote when
  the bytes hold a single quote and no double quote.
\<close>

definition backslash :: char where
  "backslash = CHR 0x5C"

definition repr_byte :: "char \<Rightarrow> char \<Rightarrow> string" where
  "repr_byte quote c =
     (let n = of_char c :: int in
      if c = quote \<or> c = backslash then [backslash, c]
      else if n = 9 then [backslash, CHR ''t'']
      else if n = 10 then [backslash, CHR ''n'']
      else if n = 13 then [backslash, CHR ''r'']
      else if n < 32 \<or> 127 \<le> n then [backslash, CHR ''x''] @ hex_byte n
      else [c])"

definition bytes_quote :: "string \<Rightarrow> char" where
  "bytes_quote bs = (if CHR 0x27 \<in> set bs \<and> CHR 0x22 \<notin> set bs then CHR 0x22 else CHR 0x27)"

definition str_of_bytes :: "string \<Rightarrow> string" where
  "str_of_bytes bs =
     (let quote = bytes_quote bs in
      [CHR ''b'', quote] @ concat (map (repr_byte quote) bs) @ [quote])"

text \<open>\<^verbatim>\<open>needle in haystack\<close> on strings: the needle occurs as a contiguous run.\<close>

fun starts_with :: "string \<Rightarrow> string \<Rightarrow> bool" where
  "starts_with [] hay = True"
| "starts_with (n # ns) [] = False"
| "starts_with (n # ns) (h # hs) = (n = h \<and> starts_with ns hs)"

fun str_contains :: "string \<Rightarrow> string \<Rightarrow> bool" where
  "str_contains needle [] = (needle = [])"
| "str_contains needle (h # hs) = (starts_with needle (h # hs) \<or> str_contains needle hs)"

text \<open>
  \<^verbatim>\<open>bytes.decode('utf-8')\<close>: the text itself, kept in its UTF-8 encoding, when the bytes
  are well-formed UTF-8 (Unicode, table 3-7); \<^verbatim>\<open>UnicodeDecodeError\<close> otherwise.
\<close>

definition in_range :: "int \<Rightarrow> int \<Rightarrow> int \<Rightarrow> bool" where
  "in_range lo hi n = (lo \<le> n \<and> n \<le> hi)"

function utf8_valid :: "int list \<Rightarrow> bool" where
  "utf8_valid [] = True"
| "utf8_valid (b # bs) =
     (if b < 128 then utf8_valid bs
      else if in_range 194 223 b then
        (case bs of c1 # r \<Rightarrow> in_range 128 191 c1 \<and> utf8_valid r | _ \<Rightarrow> False)
      else if in_range 224 239 b then
        (case bs of
           c1 # c2 # r \<Rightarrow>
             in_range (if b = 224 then 160 else 128) (if b = 237 then 159 else 191) c1
             \<and> in_range 128 191 c2 \<and> utf8_valid r
         | _ \<Rightarrow> False)
      else if in_range 240 244 b then
        (case bs of
           c1 # c2 # c3 # r \<Rightarrow>
             in_range (if b = 240 then 144 else 128) (if b = 244 then 143 else 191) c1
             \<and> in_range 128 191 c2 \<and> in_range 128 191 c3 \<and> utf8_valid r
         | _ \<Rightarrow> False)
      else False)"
  by pat_completeness auto
termination
  by (relation "measure length") auto

definition decode_utf8 :: "string \<Rightarrow> string result" where
  "decode_utf8 bs = (if utf8_valid (map of_char bs) then Inr bs else Inl UnicodeDecodeError)"

section \<open>\<^verbatim>\<open>callMovebankAPI\<close>\<close>

text \<open>
  The object holds the credentials given to the constructor. A request is what
  \<^verbatim>\<open>requests.get\<close> is called with; a response is what the module reads of the result.
  The network is a parameter: a function from its state and a request to a response, or
  the exception of a failed transport, and its next state. \<^verbatim>\<open>os.environ\<close> is a
  dictionary of strings. The call returns its value or exception, the requests it
  issued, in order, and the state of the network.
\<close>

record movebank =
  username :: string
  password :: string
  study_id :: "string option"

record request =
  url :: string
  params :: "(string \<times> string) list"
  cookies :: "(string \<times> string) list option"
  auth :: "string \<times> string"

record response =
  status_code :: int
  content :: string
  response_cookies :: "(string \<times> string) list"

type_synonym 'w network = "'w \<Rightarrow> request \<Rightarrow> response result \<times> 'w"

definition direct_read :: string where
  "direct_read = ''https://www.movebank.org/movebank/service/direct-read''"

definition callMovebankAPI ::
  "'w network \<Rightarrow> (string \<rightharpoonup> string) \<Rightarrow> movebank \<Rightarrow> (string \<times> string) list \<Rightarrow> 'w
     \<Rightarrow> string result \<times> request list \<times> 'w" where
  "callMovebankAPI get environ self params0 w0 =
     (let request1 = \<lparr>url = direct_read, params = params0, cookies = None,
                       auth = (username self, password self)\<rparr> in
      case get w0 request1 of
        (Inl err, w1) \<Rightarrow> (Inl err, [request1], w1)
      | (Inr response1, w1) \<Rightarrow>
          if status_code response1 = 200 then
            if str_contains ''License Terms:'' (str_of_bytes (content response1)) then
              let hash = hexdigest (md5 (content response1));
                  params1 = params0 @ [(''license-md5'', hash)]
              in case getitem environ ''mbus'' of
                   Inl err \<Rightarrow> (Inl err, [request1], w1)
                 | Inr mbus \<Rightarrow>
                     (case getitem environ ''mbpw'' of
                        Inl err \<Rightarrow> (Inl err, [request1], w1)
                      | Inr mbpw \<Rightarrow>
                          let request2 = \<lparr>url = direct_read, params = params1,
                                           cookies = Some (response_cookies response1),
                                           auth = (mbus, mbpw)\<rparr> in
                          (case get w1 request2 of
                             (Inl err, w2) \<Rightarrow> (Inl err, [request1, request2], w2)
                           | (Inr response2, w2) \<Rightarrow>
                               if status_code response2 = 403
                               then (Inr [], [request1, request2], w2)
                               else (decode_utf8 (content response2),
                                     [request1, request2], w2)))
            else (decode_utf8 (content response1), [request1], w1)
          else (Inr (str_of_bytes (content response1)), [request1], w1))"

section \<open>A reference instance of the library\<close>

text \<open>
  The instance \<open>cpython\<close> is used to run the module on concrete inputs. It follows
  CPython on a subset of the inputs and is documented where it is narrower:
  \<^item> \<open>dec_float\<close> reads an optionally signed decimal literal with an optional fraction
    (\<^verbatim>\<open>float\<close> reads more: exponents, underscores, surrounding whitespace, \<^verbatim>\<open>inf\<close>);
    the value is the exact rational;
  \<^item> \<open>dec_int\<close> reads an optionally signed run of decimal digits;
  \<^item> a \<open>datetime\<close> is the record of its fields; the ordinal arithmetic is the one of
    CPython's \<^verbatim>\<open>_pydatetime.py\<close>; \<open>strptime_ts\<close> accepts the zero-padded form of
    \<^verbatim>\<open>%Y-%m-%d %H:%M:%S.%f\<close> only, \<open>strftime_ts\<close> writes it;
  \<^item> a \<^verbatim>\<open>timedelta\<close> is its number of microseconds; a float number of seconds is
    rounded to the nearest microsecond, halves to even.
\<close>

definition isdigit :: "char \<Rightarrow> bool" where
  "isdigit c = (let n = of_char c :: int in 48 \<le> n \<and> n \<le> 57)"

definition digit_value :: "char \<Rightarrow> int" where
  "digit_value c = of_char c - 48"

definition digits_value :: "string \<Rightarrow> int" where
  "digits_value ds = foldl (\<lambda>a c. 10 * a + digit_value c) 0 ds"

definition dec_unsigned :: "string \<Rightarrow> real option" where
  "dec_unsigned s =
     (let ip = takeWhile isdigit s; rest = dropWhile isdigit s in
      case rest of
        [] \<Rightarrow> if ip = [] then None else Some (real_of_int (digits_value ip))
      | c # fp \<Rightarrow>
          if c = CHR ''.'' \<and> list_all isdigit fp \<and> (ip \<noteq> [] \<or> fp \<noteq> [])
          then Some (real_of_int (digits_value ip) + real_of_int (digits_value fp) / 10 ^ length fp)
          else None)"

definition dec_float :: "string \<Rightarrow> real option" where
  "dec_float s =
     (case s of
        [] \<Rightarrow> None
      | c # r \<Rightarrow>
          if c = CHR ''-'' then map_option uminus (dec_unsigned r)
          else if c = CHR ''+'' then dec_unsigned r
          else dec_unsigned s)"

definition dec_nat :: "string \<Rightarrow> int option" where
  "dec_nat s = (if s \<noteq> [] \<and> list_all isdigit s then Some (digits_value s) else None)"

definition dec_int :: "string \<Rightarrow> int option" where
  "dec_int s =
     (case s of
        [] \<Rightarrow> None
      | c # r \<Rightarrow>
          if c = CHR ''-'' then map_option uminus (dec_nat r)
          else if c = CHR ''+'' then dec_nat r
          else dec_nat s)"

record datetime =
  year :: int
  month :: int
  day :: int
  hour :: int
  minute :: int
  second :: int
  microsecond :: int

definition is_leap :: "int \<Rightarrow> bool" where
  "is_leap y = (y mod 4 = 0 \<and> (y mod 100 \<noteq> 0 \<or> y mod 400 = 0))"

definition days_in_month_table :: "int list" where
  "days_in_month_table = [0, 31, 28, 31, 30, 31, 30, 31, 31, 30, 31, 30, 31]"

definition days_before_month_table :: "int list" where
  "days_before_month_table = [0, 0, 31, 59, 90, 120, 151, 181, 212, 243, 273, 304, 334]"

definition days_before_year :: "int \<Rightarrow> int" where
  "days_before_year yr = (let y = yr - 1 in y * 365 + y div 4 - y div 100 + y div 400)"

definition days_in_month :: "int \<Rightarrow> int \<Rightarrow> int" where
  "days_in_month y m =
     (if m = 2 \<and> is_leap y then 29 else days_in_month_table ! nat m)"

definition days_before_month :: "int \<Rightarrow> int \<Rightarrow> int" where
  "days_before_month y m =
     days_before_month_table ! nat m + (if m > 2 \<and> is_leap y then 1 else 0)"

definition ymd2ord :: "int \<Rightarrow> int \<Rightarrow> int \<Rightarrow> int" where
  "ymd2ord y m d = days_before_year y + days_before_month y m + d"

definition ord2ymd :: "int \<Rightarrow> int \<times> int \<times> int" where
  "ord2ymd ordinal =
     (let n = ordinal - 1;
          n400 = n div 146097; n = n mod 146097;
          n100 = n div 36524; n = n mod 36524;
          n4 = n div 1461; n = n mod 1461;
          n1 = n div 365; n = n mod 365;
          y = n400 * 400 + 1 + n100 * 100 + n4 * 4 + n1
      in if n1 = 4 \<or> n100 = 4 then (y - 1, 12, 31)
         else
           let leapyear = (n1 = 3 \<and> (n4 \<noteq> 24 \<or> n100 = 3));
               m = (n + 50) div 32;
               preceding = days_before_month_table ! nat m
                           + (if m > 2 \<and> leapyear then 1 else 0)
           in if preceding > n
              then
                let m' = m - 1;
                    preceding' = preceding
                      - (days_in_month_table ! nat m' + (if m' = 2 \<and> leapyear then 1 else 0))
                in (y, m', n - preceding' + 1)
              else (y, m, n - preceding + 1))"

definition max_ordinal :: int where
  "max_ordinal = 3652059"

definition us_per_day :: int where
  "us_per_day = 86400000000"

definition us_of_day :: "datetime \<Rightarrow> int" where
  "us_of_day t = ((hour t * 60 + minute t) * 60 + second t) * 1000000 + microsecond t"

definition round_half_even :: "real \<Rightarrow> int" where
  "round_half_even r =
     (let f = \<lfloor>r\<rfloor>; d = r - of_int f in
      if d < 1 / 2 then f else if 1 / 2 < d then f + 1 else if even f then f else f + 1)"

definition timedelta_us :: "real \<Rightarrow> int result" where
  "timedelta_us secs =
     (let us = round_half_even (secs * 1000000) in
      if \<bar>us div us_per_day\<bar> > 999999999 then Inl OverflowError else Inr us)"

definition datetime_add :: "datetime \<Rightarrow> int \<Rightarrow> datetime result" where
  "datetime_add t delta =
     (let total = ymd2ord (year t) (month t) (day t) * us_per_day + us_of_day t + delta;
          days = total div us_per_day;
          us = total mod us_per_day
      in if \<bar>days\<bar> > 999999999 then Inl OverflowError
         else if 0 < days \<and> days \<le> max_ordinal
         then (case ord2ymd days of
                 (y, m, d) \<Rightarrow>
                   Inr \<lparr>year = y, month = m, day = d,
                        hour = us div 3600000000,
                        minute = us mod 3600000000 div 60000000,
                        second = us mod 60000000 div 1000000,
                        microsecond = us mod 1000000\<rparr>)
         else Inl OverflowError)"

definition field_ok :: "string \<Rightarrow> nat \<Rightarrow> nat \<Rightarrow> bool" where
  "field_ok s i n = list_all isdigit (take n (drop i s))"

definition field :: "string \<Rightarrow> nat \<Rightarrow> nat \<Rightarrow> int" where
  "field s i n = digits_value (take n (drop i s))"

definition strptime_ts :: "string \<Rightarrow> string \<Rightarrow> datetime option" where
  "strptime_ts s fmt =
     (if fmt \<noteq> ts_format then None
      else if \<not> (21 \<le> length s \<and> length s \<le> 26) then None
      else if \<not> (s ! 4 = CHR ''-'' \<and> s ! 7 = CHR ''-'' \<and> s ! 10 = CHR '' ''
                \<and> s ! 13 = CHR '':'' \<and> s ! 16 = CHR '':'' \<and> s ! 19 = CHR ''.'') then None
      else if \<not> (field_ok s 0 4 \<and> field_ok s 5 2 \<and> field_ok s 8 2 \<and> field_ok s 11 2
                \<and> field_ok s 14 2 \<and> field_ok s 17 2 \<and> field_ok s 20 6) then None
      else
        let y = field s 0 4; m = field s 5 2; d = field s 8 2;
            h = field s 11 2; mi = field s 14 2; sec = field s 17 2;
            us = field s 20 6 * 10 ^ (26 - length s)
        in if 1 \<le> y \<and> 1 \<le> m \<and> m \<le> 12 \<and> 1 \<le> d \<and> d \<le> days_in_month y m
              \<and> h \<le> 23 \<and> mi \<le> 59 \<and> sec \<le> 59
           then Some \<lparr>year = y, month = m, day = d, hour = h, minute = mi,
                      second = sec, microsecond = us\<rparr>
           else None)"

definition digit_char :: "int \<Rightarrow> char" where
  "digit_char n = char_of (48 + n mod 10)"

fun zero_pad :: "nat \<Rightarrow> int \<Rightarrow> string" where
  "zero_pad 0 v = []"
| "zero_pad (Suc k) v = zero_pad k (v div 10) @ [digit_char v]"

definition strftime_ts :: "datetime \<Rightarrow> string \<Rightarrow> string" where
  "strftime_ts t fmt =
     (if fmt = ts_format then
        zero_pad 4 (year t) @ ''-'' @ zero_pad 2 (month t) @ ''-''
        @ zero_pad 2 (day t) @ '' '' @ zero_pad 2 (hour t) @ '':''
        @ zero_pad 2 (minute t) @ '':'' @ zero_pad 2 (second t) @ ''.''
        @ zero_pad 6 (microsecond t)
      else fmt)"

definition cpython :: "(datetime, int) pylib" where
  "cpython = \<lparr>py_float = dec_float, py_int = dec_int, strptime = strptime_ts,
               strftime = strftime_ts, timedelta = timedelta_us, dt_add = datetime_add\<rparr>"

section \<open>Example inputs\<close>

text \<open>
  A burst of three samples at 10 Hz from a first-generation tag; the same burst from a
  later-generation tag; a burst of four raw integers; a burst whose sampling frequency
  is zero.
\<close>

definition burst_10hz :: event where
  "burst_10hz =
     [''tag_local_identifier'' \<mapsto> ''1000'',
      ''deployment_id'' \<mapsto> ''7'',
      ''acceleration_sampling_frequency_per_axis'' \<mapsto> ''10'',
      ''timestamp'' \<mapsto> ''2020-01-01 00:00:00.000000'',
      ''accelerations_raw'' \<mapsto> ''2048 2048 2048 3048 2048 1048 2048 2049 2047'']"

definition burst_tag_5000 :: event where
  "burst_tag_5000 = burst_10hz(''tag_local_identifier'' \<mapsto> ''5000'')"

definition burst_four_integers :: event where
  "burst_four_integers = burst_10hz(''accelerations_raw'' \<mapsto> ''3048 2048 2048 2048'')"

definition burst_zero_frequency :: event where
  "burst_zero_frequency = burst_10hz(''acceleration_sampling_frequency_per_axis'' \<mapsto> ''0'')"

text \<open>
  A GPS event whose latitude is empty, and one whose latitude does not parse while its
  longitude does.
\<close>

definition fix_empty_lat :: gpsevent where
  "fix_empty_lat =
     [''timestamp'' \<mapsto> PyStr ''2020-01-01 00:00:00.000'',
      ''deployment_id'' \<mapsto> PyStr ''7'',
      ''location_lat'' \<mapsto> PyStr '''',
      ''location_long'' \<mapsto> PyStr ''12.5'']"

definition fix_bad_lat :: gpsevent where
  "fix_bad_lat = fix_empty_lat(''location_lat'' \<mapsto> PyStr ''abc'')"

text \<open>
  A network with one server, whose state counts the requests it has answered. A request
  without the parameter \<^verbatim>\<open>license-md5\<close> is answered with the license terms and a session
  cookie; a request with it is answered with the data when the parameter is the hash the
  server accepts, and with status 403 otherwise.
\<close>

definition license_terms :: string where
  "license_terms = ''License Terms: by downloading you agree''"

definition server :: "string \<Rightarrow> nat network" where
  "server accepted n rq =
     (case map_of (params rq) ''license-md5'' of
        None \<Rightarrow>
          (Inr \<lparr>status_code = 200, content = license_terms,
                response_cookies = [(''JSESSIONID'', ''A1'')]\<rparr>, Suc n)
      | Some h \<Rightarrow>
          if h = accepted
          then (Inr \<lparr>status_code = 200, content = ''timestamp,deployment_id'',
                     response_cookies = []\<rparr>, Suc n)
          else (Inr \<lparr>status_code = 403, content = ''Forbidden'',
                     response_cookies = []\<rparr>, Suc n))"

definition alice :: movebank where
  "alice = \<lparr>username = ''alice'', password = ''secret'', study_id = Some ''42''\<rparr>"

definition event_params :: "(string \<times> string) list" where
  "event_params = [(''entity_type'', ''event''), (''study_id'', ''42'')]"

definition environ_bob :: "string \<rightharpoonup> string" where
  "environ_bob = [''mbus'' \<mapsto> ''bob'', ''mbpw'' \<mapsto> ''hunter2'']"

section \<open>Results that may raise\<close>

lemma rbind_Inr_iff: "rbind m f = Inr y \<longleftrightarrow> (\<exists>x. m = Inr x \<and> f x = Inr y)"
  by (cases m) (simp_all add: rbind_def)

lemma rbind_Inl: "rbind (Inl e) f = Inl e"
  by (simp add: rbind_def)

lemma rbind_Inr: "rbind (Inr x) f = f x"
  by (simp add: rbind_def)

lemma value_error_Inr_iff: "value_error m = Inr x \<longleftrightarrow> m = Some x"
  by (cases m) (simp_all add: value_error_def)

lemma getitem_Inr_iff: "getitem d k = Inr v \<longleftrightarrow> d k = Some v"
  by (cases "d k") (simp_all add: getitem_def)

lemma mapM_Inr_length: "mapM f xs = Inr ys \<Longrightarrow> length ys = length xs"
  by (induction xs arbitrary: ys) (auto split: sum.splits)

lemma mapM_Inr_nth: "mapM f xs = Inr ys \<Longrightarrow> i < length xs \<Longrightarrow> f (xs ! i) = Inr (ys ! i)"
proof (induction xs arbitrary: ys i)
  case Nil
  then show ?case by simp
next
  case (Cons x xs)
  then show ?case by (cases i) (auto split: sum.splits)
qed

lemma mapM_Inl: "x \<in> set xs \<Longrightarrow> f x = Inl e \<Longrightarrow> \<exists>e'. mapM f xs = Inl e'"
  by (induction xs) (auto split: sum.splits)

section \<open>The decoder's loop and its body\<close>



lemma triples_short: "length xs < 3 \<Longrightarrow> triples xs = []"
  by (cases xs rule: triples.cases) simp_all

lemma triples_append_short:
  "3 dvd length xs \<Longrightarrow> length extra < 3 \<Longrightarrow> triples (xs @ extra) = triples xs"
proof (induction xs rule: triples.induct)
  case (1 a b c xs)
  have "length (a # b # c # xs) = length xs + 3" by simp
  with 1(2) have "3 dvd length xs + 3" by metis
  then have "3 dvd length xs" by (simp only: dvd_add_triv_right_iff)
  with 1 show ?case by simp
qed (auto simp add: triples_short dest: dvd_imp_le)

lemma acc_loop_mapM:
  "acc_loop lib slp uf evs out =
     (case mapM (acc_event lib slp uf) evs of Inl e \<Rightarrow> Inl e | Inr ys \<Rightarrow> Inr (out @ ys))"
  by (induction evs arbitrary: out) (auto split: sum.splits)

lemma acc_event_Inr:
  assumes "acc_event lib slp uf event = Inr samples"
  obtains deploym freq f timestamp parsedts field raw ts where
    "event ''deployment_id'' = Some deploym"
    "event ''acceleration_sampling_frequency_per_axis'' = Some freq"
    "py_float lib freq = Some f" "f \<noteq> 0"
    "event ''timestamp'' = Some timestamp"
    "strptime lib timestamp ts_format = Some parsedts"
    "event ''accelerations_raw'' = Some field"
    "mapM (\<lambda>tok. value_error (py_int lib tok)) (split field) = Inr raw"
    "mapM (\<lambda>x. rbind (timedelta lib (1 / f * real x)) (dt_add lib parsedts))
       [0 ..< length raw div 3] = Inr ts"
    "samples = map (\<lambda>(a, b0, b1, b2).
                 (strftime lib a ts_format, deploym,
                  real_of_int (b0 - 2048) * slp * uf,
                  real_of_int (b1 - 2048) * slp * uf,
                  real_of_int (b2 - 2048) * slp * uf))
            (zip ts (triples raw))"
  using assms unfolding acc_event_def rbind_Inr_iff value_error_Inr_iff getitem_Inr_iff
  by (auto split: if_splits)

lemma acc_event_bad_frequency:
  assumes "event ''acceleration_sampling_frequency_per_axis'' = Some freq"
    and "py_float lib freq = None \<or> py_float lib freq = Some 0"
  shows "\<exists>err. acc_event lib slp uf event = Inl err"
proof (cases "acc_event lib slp uf event")
  case (Inl err)
  then show ?thesis by blast
next
  case (Inr samples)
  then show ?thesis
    using assms by (elim acc_event_Inr) auto
qed

lemma transformRawACC_Inr:
  assumes "transformRawACC lib accevents unit sensitivity = Inr out"
  obtains first rest tag_field tag where
    "accevents = first # rest"
    "first ''tag_local_identifier'' = Some tag_field"
    "py_int lib tag_field = Some tag"
    "mapM (acc_event lib (slope tag sensitivity) (unitfactor unit)) accevents = Inr out"
proof (cases accevents)
  case Nil
  with assms show ?thesis by (simp add: transformRawACC_def)
next
  case (Cons first rest)
  from assms have "rbind (getitem first ''tag_local_identifier'') (\<lambda>tag.
          rbind (value_error (py_int lib tag)) (\<lambda>tag_local_identifier.
          acc_loop lib (slope tag_local_identifier sensitivity) (unitfactor unit)
            accevents [])) = Inr out"
    unfolding transformRawACC_def Cons by simp
  then obtain tag_field tag where
    "first ''tag_local_identifier'' = Some tag_field" "py_int lib tag_field = Some tag"
    and loop: "acc_loop lib (slope tag sensitivity) (unitfactor unit) accevents [] = Inr out"
    unfolding rbind_Inr_iff value_error_Inr_iff getitem_Inr_iff
    by blast
  moreover from loop
  have "mapM (acc_event lib (slope tag sensitivity) (unitfactor unit)) accevents = Inr out"
    by (simp add: acc_loop_mapM split: sum.splits)
  ultimately show ?thesis using Cons that by blast
qed

section \<open>Calibration table\<close>

text \<open>
  Claim C2. For every integer tag identifier and both sensitivity modes the slope is the
  one of the generation table: up to 2241 it is 0.0027 for \<^verbatim>\<open>'low'\<close> and 0.001 for
  \<^verbatim>\<open>'high'\<close>; from 2242 to 4117 it is 0.0022 for every sensitivity; above 4117 it is
  1/512 for every sensitivity. The three buckets cover the integers and are pairwise
  disjoint, so each tag identifier falls into exactly one of them.
\<close>

theorem C2_slope_table:
  "(t \<le> 2241 \<longrightarrow> slope t ''low'' = 0.0027 \<and> slope t ''high'' = 0.001)
   \<and> (2242 \<le> t \<and> t \<le> 4117 \<longrightarrow> slope t s = 0.0022)
   \<and> (4117 < t \<longrightarrow> slope t s = 1 / 512)
   \<and> ((t \<le> 2241 \<and> \<not> (2242 \<le> t \<and> t \<le> 4117) \<and> \<not> 4117 < t)
      \<or> (\<not> t \<le> 2241 \<and> (2242 \<le> t \<and> t \<le> 4117) \<and> \<not> 4117 < t)
      \<or> (\<not> t \<le> 2241 \<and> \<not> (2242 \<le> t \<and> t \<le> 4117) \<and> 4117 < t))"
proof -
  have low: "t \<le> 2241 \<longrightarrow> slope t ''low'' = 0.0027 \<and> slope t ''high'' = 0.001"
    by (simp add: slope_def)
  have mid: "2242 \<le> t \<and> t \<le> 4117 \<longrightarrow> slope t s = 0.0022"
    by (simp add: slope_def)
  have high: "4117 < t \<longrightarrow> slope t s = 1 / 512"
    by (simp add: slope_def)
  have buckets: "(t \<le> 2241 \<and> \<not> (2242 \<le> t \<and> t \<le> 4117) \<and> \<not> 4117 < t)
      \<or> (\<not> t \<le> 2241 \<and> (2242 \<le> t \<and> t \<le> 4117) \<and> \<not> 4117 < t)
      \<or> (\<not> t \<le> 2241 \<and> \<not> (2242 \<le> t \<and> t \<le> 4117) \<and> 4117 < t)"
    by arith
  from low mid high buckets show ?thesis by blast
qed

theorem C2_slope_table_witness:
  "slope 2241 ''low'' = 0.0027 \<and> slope 2241 ''high'' = 0.001
   \<and> slope 2242 ''low'' = 0.0022 \<and> slope 4117 ''high'' = 0.0022
   \<and> slope 4118 ''low'' = 1 / 512 \<and> slope (-5) ''high'' = 0.001"
  using C2_slope_table [of 2241 "''low''"] C2_slope_table [of 2242 "''low''"]
    C2_slope_table [of 4117 "''high''"] C2_slope_table [of 4118 "''low''"]
    C2_slope_table [of "-5" "''high''"]
  by simp

section \<open>Decoding of the axis values\<close>







section \<open>Interpolated timestamps\<close>









section \<open>Batches of events\<close>

text \<open>
  Claim C5, as amended. For every batch the decoder returns a result for, the batch is
  not empty, the result holds one sequence of samples per event, in the order of the
  events, and the sequence of each event is the decoding of that event with the slope
  looked up from the tag identifier of the first event of the batch (with the requested
  sensitivity), whatever the tag identifier of the event itself.
\<close>

theorem C5_slope_of_first_event:
  assumes "transformRawACC lib accevents unit sensitivity = Inr out"
  shows "accevents \<noteq> [] \<and> length out = length accevents
    \<and> (\<exists>tag_field tag.
          hd accevents ''tag_local_identifier'' = Some tag_field
        \<and> py_int lib tag_field = Some tag
        \<and> (\<forall>j < length accevents.
              acc_event lib (slope tag sensitivity) (unitfactor unit) (accevents ! j)
                = Inr (out ! j)))"
  using assms
proof (rule transformRawACC_Inr)
  fix first rest tag_field tag
  assume evs: "accevents = first # rest"
    and tag: "first ''tag_local_identifier'' = Some tag_field" "py_int lib tag_field = Some tag"
    and out: "mapM (acc_event lib (slope tag sensitivity) (unitfactor unit)) accevents = Inr out"
  from out have "length out = length accevents"
    by (rule mapM_Inr_length)
  moreover from out
  have "\<forall>j < length accevents.
          acc_event lib (slope tag sensitivity) (unitfactor unit) (accevents ! j) = Inr (out ! j)"
    by (simp add: mapM_Inr_nth)
  ultimately show ?thesis using evs tag by auto
qed

lemma two_generations_batch:
  "transformRawACC cpython [burst_10hz, burst_tag_5000] ''g'' ''high'' =
     Inr [[(''2020-01-01 00:00:00.000000'', ''7'', 0, 0, 0),
           (''2020-01-01 00:00:00.100000'', ''7'', 1, 0, - 1),
           (''2020-01-01 00:00:00.200000'', ''7'', 0, 1 / 1000, - (1 / 1000))],
          [(''2020-01-01 00:00:00.000000'', ''7'', 0, 0, 0),
           (''2020-01-01 00:00:00.100000'', ''7'', 1, 0, - 1),
           (''2020-01-01 00:00:00.200000'', ''7'', 0, 1 / 1000, - (1 / 1000))]]"
  by code_simp

lemma burst_tag_5000_own_slope:
  "acc_event cpython (slope 5000 ''high'') (unitfactor ''g'') burst_tag_5000 =
     Inr [(''2020-01-01 00:00:00.000000'', ''7'', 0, 0, 0),
          (''2020-01-01 00:00:00.100000'', ''7'', 125 / 64, 0, - (125 / 64)),
          (''2020-01-01 00:00:00.200000'', ''7'', 0, 1 / 512, - (1 / 512))]"
  by code_simp

theorem C5_slope_of_first_event_witness:
  "transformRawACC cpython [burst_10hz, burst_tag_5000] ''g'' ''high'' =
     Inr [[(''2020-01-01 00:00:00.000000'', ''7'', 0, 0, 0),
           (''2020-01-01 00:00:00.100000'', ''7'', 1, 0, - 1),
           (''2020-01-01 00:00:00.200000'', ''7'', 0, 1 / 1000, - (1 / 1000))],
          [(''2020-01-01 00:00:00.000000'', ''7'', 0, 0, 0),
           (''2020-01-01 00:00:00.100000'', ''7'', 1, 0, - 1),
           (''2020-01-01 00:00:00.200000'', ''7'', 0, 1 / 1000, - (1 / 1000))]]
   \<and> hd [burst_10hz, burst_tag_5000] ''tag_local_identifier'' = Some ''1000''
   \<and> py_int cpython ''1000'' = Some 1000
   \<and> acc_event cpython (slope 1000 ''high'') (unitfactor ''g'') burst_tag_5000 =
     Inr [(''2020-01-01 00:00:00.000000'', ''7'', 0, 0, 0),
          (''2020-01-01 00:00:00.100000'', ''7'', 1, 0, - 1),
          (''2020-01-01 00:00:00.200000'', ''7'', 0, 1 / 1000, - (1 / 1000))]"
proof -
  have tag: "hd [burst_10hz, burst_tag_5000] ''tag_local_identifier'' = Some ''1000''"
    by (simp add: burst_10hz_def)
  have int: "py_int cpython ''1000'' = Some 1000"
    by code_simp
  from C5_slope_of_first_event [OF two_generations_batch] tag int
  have "\<forall>j < length [burst_10hz, burst_tag_5000].
      acc_event cpython (slope 1000 ''high'') (unitfactor ''g'') ([burst_10hz, burst_tag_5000] ! j)
      = Inr ([[(''2020-01-01 00:00:00.000000'', ''7'', 0, 0, 0),
           (''2020-01-01 00:00:00.100000'', ''7'', 1, 0, - 1),
           (''2020-01-01 00:00:00.200000'', ''7'', 0, 1 / 1000, - (1 / 1000))],
          [(''2020-01-01 00:00:00.000000'', ''7'', 0, 0, 0),
           (''2020-01-01 00:00:00.100000'', ''7'', 1, 0, - 1),
           (''2020-01-01 00:00:00.200000'', ''7'', 0, 1 / 1000, - (1 / 1000))]] ! j)"
    by auto
  from this [rule_format, of 1] two_generations_batch tag int show ?thesis
    by simp
qed

text \<open>
  The claim as stated fails: in a batch whose first event has tag 1000 and whose second
  event has tag 5000, the samples of the second event are computed with the slope 0.001
  of the first event, not with the slope 1/512 of its own tag.
\<close>

theorem C5_own_tag_counterexample:
  "transformRawACC cpython [burst_10hz, burst_tag_5000] ''g'' ''high'' =
     Inr [[(''2020-01-01 00:00:00.000000'', ''7'', 0, 0, 0),
           (''2020-01-01 00:00:00.100000'', ''7'', 1, 0, - 1),
           (''2020-01-01 00:00:00.200000'', ''7'', 0, 1 / 1000, - (1 / 1000))],
          [(''2020-01-01 00:00:00.000000'', ''7'', 0, 0, 0),
           (''2020-01-01 00:00:00.100000'', ''7'', 1, 0, - 1),
           (''2020-01-01 00:00:00.200000'', ''7'', 0, 1 / 1000, - (1 / 1000))]]
   \<and> burst_tag_5000 ''tag_local_identifier'' = Some ''5000''
   \<and> py_int cpython ''5000'' = Some 5000
   \<and> slope 5000 ''high'' = 1 / 512
   \<and> acc_event cpython (slope 5000 ''high'') (unitfactor ''g'') burst_tag_5000 =
     Inr [(''2020-01-01 00:00:00.000000'', ''7'', 0, 0, 0),
          (''2020-01-01 00:00:00.100000'', ''7'', 125 / 64, 0, - (125 / 64)),
          (''2020-01-01 00:00:00.200000'', ''7'', 0, 1 / 512, - (1 / 512))]"
proof -
  have "burst_tag_5000 ''tag_local_identifier'' = Some ''5000''"
    by (simp add: burst_tag_5000_def)
  moreover have "py_int cpython ''5000'' = Some 5000"
    by code_simp
  moreover have "slope 5000 ''high'' = 1 / 512"
    by (simp add: slope_def)
  ultimately show ?thesis
    using two_generations_batch burst_tag_5000_own_slope by simp
qed

section \<open>Malformed events\<close>

text \<open>
  Claim C6, as amended. An event whose sampling frequency field does not parse, or
  parses to zero, makes the decoder raise, and the exception ends the whole call: no
  output is produced for any event of the batch. A raw list whose length is not a
  multiple of three is not an error: the one or two integers after the last full triple
  are dropped, and the event decodes exactly as the event without them.
\<close>

theorem C6_failure_ends_the_batch:
  "(event \<in> set accevents
      \<and> event ''acceleration_sampling_frequency_per_axis'' = Some freq
      \<and> (py_float lib freq = None \<or> py_float lib freq = Some 0)
      \<longrightarrow> (\<exists>err. transformRawACC lib accevents unit sensitivity = Inl err))
   \<and> (mapM (\<lambda>tok. value_error (py_int lib tok)) (split raw_field) = Inr raw
      \<and> mapM (\<lambda>tok. value_error (py_int lib tok)) (split longer_field) = Inr (raw @ extra)
      \<and> 3 dvd length raw \<and> length extra < 3
      \<longrightarrow> acc_event lib slp uf (ev(''accelerations_raw'' \<mapsto> longer_field))
          = acc_event lib slp uf (ev(''accelerations_raw'' \<mapsto> raw_field)))"
proof (intro conjI impI)
  assume a: "event \<in> set accevents
      \<and> event ''acceleration_sampling_frequency_per_axis'' = Some freq
      \<and> (py_float lib freq = None \<or> py_float lib freq = Some 0)"
  show "\<exists>err. transformRawACC lib accevents unit sensitivity = Inl err"
  proof (cases "transformRawACC lib accevents unit sensitivity")
    case (Inl err)
    then show ?thesis by blast
  next
    case (Inr out)
    then obtain tag where
      out: "mapM (acc_event lib (slope tag sensitivity) (unitfactor unit)) accevents = Inr out"
      by (rule transformRawACC_Inr)
    from a have mem: "event \<in> set accevents"
      and freq: "event ''acceleration_sampling_frequency_per_axis'' = Some freq"
      and bad: "py_float lib freq = None \<or> py_float lib freq = Some 0"
      by simp_all
    from acc_event_bad_frequency [of event freq lib, OF freq bad] obtain err where
      "acc_event lib (slope tag sensitivity) (unitfactor unit) event = Inl err"
      by blast
    from mapM_Inl [of event accevents "acc_event lib (slope tag sensitivity) (unitfactor unit)",
        OF mem this]
    obtain err' where
      "mapM (acc_event lib (slope tag sensitivity) (unitfactor unit)) accevents = Inl err'"
      by blast
    with out show ?thesis by simp
  qed
next
  assume b: "mapM (\<lambda>tok. value_error (py_int lib tok)) (split raw_field) = Inr raw
      \<and> mapM (\<lambda>tok. value_error (py_int lib tok)) (split longer_field) = Inr (raw @ extra)
      \<and> 3 dvd length raw \<and> length extra < 3"
  then have tr: "triples (raw @ extra) = triples raw"
    by (simp add: triples_append_short)
  from b have "(length raw + length extra) div 3 = length raw div 3"
    by auto
  with b tr show "acc_event lib slp uf (ev(''accelerations_raw'' \<mapsto> longer_field))
          = acc_event lib slp uf (ev(''accelerations_raw'' \<mapsto> raw_field))"
    by (simp add: acc_event_def getitem_def rbind_Inr)
qed

lemma zero_frequency_field:
  "burst_zero_frequency ''acceleration_sampling_frequency_per_axis'' = Some ''0''"
  by (simp add: burst_zero_frequency_def)

lemma zero_frequency_value: "py_float cpython ''0'' = Some 0"
  by code_simp

lemma three_integers:
  "mapM (\<lambda>tok. value_error (py_int cpython tok)) (split ''3048 2048 2048'')
     = Inr [3048, 2048, 2048]"
  by code_simp

lemma four_integers:
  "mapM (\<lambda>tok. value_error (py_int cpython tok)) (split ''3048 2048 2048 2048'')
     = Inr ([3048, 2048, 2048] @ [2048])"
  by code_simp

theorem C6_failure_ends_the_batch_witness:
  "(\<exists>err. transformRawACC cpython [burst_10hz, burst_zero_frequency] ''g'' ''high'' = Inl err)
   \<and> acc_event cpython (1 / 1000) 1 burst_four_integers
     = acc_event cpython (1 / 1000) 1 (burst_10hz(''accelerations_raw'' \<mapsto> ''3048 2048 2048''))"
proof -
  have "burst_zero_frequency \<in> set [burst_10hz, burst_zero_frequency]" by simp
  with C6_failure_ends_the_batch [of burst_zero_frequency "[burst_10hz, burst_zero_frequency]"
      "''0''" cpython "''g''" "''high''"]
    zero_frequency_field zero_frequency_value
  have "\<exists>err. transformRawACC cpython [burst_10hz, burst_zero_frequency] ''g'' ''high'' = Inl err"
    by blast
  moreover
  have "(3::nat) dvd length [3048, 2048, 2048 :: int]" "length [2048 :: int] < 3"
    by (simp_all add: numeral_3_eq_3)
  with C6_failure_ends_the_batch [of _ _ _ cpython _ _ "''3048 2048 2048''" "[3048, 2048, 2048]"
      "''3048 2048 2048 2048''" "[2048]" "1 / 1000" 1 burst_10hz]
    three_integers four_integers
  have "acc_event cpython (1 / 1000) 1 (burst_10hz(''accelerations_raw'' \<mapsto> ''3048 2048 2048 2048''))
     = acc_event cpython (1 / 1000) 1 (burst_10hz(''accelerations_raw'' \<mapsto> ''3048 2048 2048''))"
    by blast
  ultimately show ?thesis by (simp add: burst_four_integers_def)
qed

text \<open>
  The claim as stated fails twice. A batch of one event with four raw integers is
  decoded without any failure, to one sample. A batch whose first event has the
  sampling frequency zero raises \<^verbatim>\<open>ZeroDivisionError\<close> for the whole call, although its
  second event alone is decoded to three samples.
\<close>

theorem C6_loud_and_isolated_counterexample:
  "transformRawACC cpython [burst_four_integers] ''g'' ''high'' =
     Inr [[(''2020-01-01 00:00:00.000000'', ''7'', 1, 0, 0)]]
   \<and> transformRawACC cpython [burst_zero_frequency, burst_10hz] ''g'' ''high'' =
     Inl ZeroDivisionError
   \<and> transformRawACC cpython [burst_10hz] ''g'' ''high'' =
     Inr [[(''2020-01-01 00:00:00.000000'', ''7'', 0, 0, 0),
           (''2020-01-01 00:00:00.100000'', ''7'', 1, 0, - 1),
           (''2020-01-01 00:00:00.200000'', ''7'', 0, 1 / 1000, - (1 / 1000))]]"
proof -
  have "transformRawACC cpython [burst_four_integers] ''g'' ''high'' =
     Inr [[(''2020-01-01 00:00:00.000000'', ''7'', 1, 0, 0)]]"
    by code_simp
  moreover
  have "transformRawACC cpython [burst_zero_frequency, burst_10hz] ''g'' ''high'' =
     Inl ZeroDivisionError"
    by code_simp
  moreover
  have "transformRawACC cpython [burst_10hz] ''g'' ''high'' =
     Inr [[(''2020-01-01 00:00:00.000000'', ''7'', 0, 0, 0),
           (''2020-01-01 00:00:00.100000'', ''7'', 1, 0, - 1),
           (''2020-01-01 00:00:00.200000'', ''7'', 0, 1 / 1000, - (1 / 1000))]]"
    by code_simp
  ultimately show ?thesis by blast
qed

section \<open>The empty batch\<close>

text \<open>
  Claim C10. On the empty list of events the decoder raises \<^verbatim>\<open>IndexError\<close>, since it
  reads the tag identifier of the first event before the loop; it does not return the
  empty output. Hence every call that returns a result was given at least one event.
\<close>

theorem C10_empty_batch:
  "transformRawACC lib [] unit sensitivity = Inl IndexError
   \<and> (transformRawACC lib accevents unit sensitivity = Inr out \<longrightarrow> accevents \<noteq> [])"
proof -
  have "transformRawACC lib [] unit sensitivity = Inl IndexError"
    by (simp add: transformRawACC_def)
  then show ?thesis by auto
qed

theorem C10_empty_batch_witness:
  "transformRawACC cpython [] ''g'' ''high'' = Inl IndexError
   \<and> transformRawACC cpython [burst_four_integers] ''g'' ''high'' =
     Inr [[(''2020-01-01 00:00:00.000000'', ''7'', 1, 0, 0)]]
   \<and> [burst_four_integers] \<noteq> []"
proof -
  have "transformRawACC cpython [burst_four_integers] ''g'' ''high'' =
     Inr [[(''2020-01-01 00:00:00.000000'', ''7'', 1, 0, 0)]]"
    by code_simp
  with C10_empty_batch [of cpython "''g''" "''high''" "[burst_four_integers]"
      "[[(''2020-01-01 00:00:00.000000'', ''7'', 1, 0, 0)]]"]
  show ?thesis by blast
qed

section \<open>Normalising a GPS event\<close>

text \<open>
  Claim C9, as amended. For every GPS event that has the four fields, with string
  coordinates, \<^verbatim>\<open>transform\<close> returns the tuple without raising, and the timestamp and
  the deployment identifier are those of the event. The latitude is converted to a
  number when it is non-empty and parses, and is kept as the string otherwise. The
  longitude is kept as the string when the latitude is non-empty and does not parse;
  otherwise it is converted when it is non-empty and parses, and kept as the string
  when it is empty or does not parse.
\<close>

theorem C9_coordinates:
  assumes "e ''timestamp'' = Some ts"
    and "e ''deployment_id'' = Some dep"
    and "e ''location_lat'' = Some (PyStr lat)"
    and "e ''location_long'' = Some (PyStr long)"
  shows "transform lib e =
     Inr (ts, dep,
          (if lat \<noteq> [] then
             (case py_float lib lat of Some r \<Rightarrow> PyFloat r | None \<Rightarrow> PyStr lat)
           else PyStr lat),
          (if lat \<noteq> [] \<and> py_float lib lat = None then PyStr long
           else if long \<noteq> [] then
             (case py_float lib long of Some r \<Rightarrow> PyFloat r | None \<Rightarrow> PyStr long)
           else PyStr long))"
proof -
  have lat_field: "convert_field lib e ''location_lat'' =
      (if lat = [] then Inr e
       else case py_float lib lat of
              None \<Rightarrow> Inl ValueError
            | Some r \<Rightarrow> Inr (e(''location_lat'' \<mapsto> PyFloat r)))"
    using assms(3)
    by (simp add: convert_field_def getitem_def rbind_def value_error_def split: option.splits)
  have long_field: "convert_field lib e' ''location_long'' =
      (if long = [] then Inr e'
       else case py_float lib long of
              None \<Rightarrow> Inl ValueError
            | Some r \<Rightarrow> Inr (e'(''location_long'' \<mapsto> PyFloat r)))"
    if "e' ''location_long'' = Some (PyStr long)" for e'
    using that
    by (simp add: convert_field_def getitem_def rbind_def value_error_def split: option.splits)
  show ?thesis
  proof (cases "lat = []")
    case True
    with lat_field have "convert_field lib e ''location_lat'' = Inr e" by simp
    then have "try_convert lib e =
        (case convert_field lib e ''location_long'' of Inl err \<Rightarrow> e | Inr e2 \<Rightarrow> e2)"
      by (simp add: try_convert_def)
    with True assms long_field [of e] show ?thesis
      by (auto simp add: transform_def getitem_def rbind_def split: option.splits)
  next
    case False
    show ?thesis
    proof (cases "py_float lib lat")
      case None
      with False lat_field have "convert_field lib e ''location_lat'' = Inl ValueError" by simp
      then have "try_convert lib e = e"
        by (simp add: try_convert_def)
      with False None assms show ?thesis
        by (simp add: transform_def getitem_def rbind_def)
    next
      case (Some r)
      let ?e1 = "e(''location_lat'' \<mapsto> PyFloat r)"
      from Some False lat_field have "convert_field lib e ''location_lat'' = Inr ?e1" by simp
      then have "try_convert lib e =
          (case convert_field lib ?e1 ''location_long'' of Inl err \<Rightarrow> ?e1 | Inr e2 \<Rightarrow> e2)"
        by (simp add: try_convert_def)
      moreover from assms(4) have "?e1 ''location_long'' = Some (PyStr long)" by simp
      ultimately show ?thesis
        using False Some assms long_field [of ?e1]
        by (auto simp add: transform_def getitem_def rbind_def split: option.splits)
    qed
  qed
qed

theorem C9_coordinates_witness:
  "transform cpython fix_empty_lat =
     Inr (PyStr ''2020-01-01 00:00:00.000'', PyStr ''7'', PyStr '''', PyFloat 12.5)"
proof -
  have "py_float cpython ''12.5'' = Some 12.5" by code_simp
  with C9_coordinates [of fix_empty_lat "PyStr ''2020-01-01 00:00:00.000''" "PyStr ''7''"
      "''''" "''12.5''" cpython]
  show ?thesis by (simp add: fix_empty_lat_def)
qed

text \<open>
  The claim as stated fails: when the latitude does not parse, the longitude is not
  converted although it is non-empty and parses.
\<close>

theorem C9_longitude_counterexample:
  "transform cpython fix_bad_lat =
     Inr (PyStr ''2020-01-01 00:00:00.000'', PyStr ''7'', PyStr ''abc'', PyStr ''12.5'')
   \<and> py_float cpython ''12.5'' = Some 12.5"
  by code_simp

section \<open>The marker in \<^verbatim>\<open>str(response.content)\<close>\<close>

text \<open>
  The module looks for the marker in the \<^verbatim>\<open>repr\<close> of the body, not in the body. For this
  marker the two tests agree: every character of the marker is written as itself, and
  every escape sequence starts with a backslash and goes on with characters other than
  the capital L.
\<close>

lemma starts_with_snoc:
  "q \<notin> set ns \<Longrightarrow> starts_with ns (hay @ [q]) = starts_with ns hay"
proof (induction ns arbitrary: hay)
  case Nil
  then show ?case by simp
next
  case (Cons n ns)
  then show ?case by (cases hay) auto
qed

lemma str_contains_snoc:
  "q \<notin> set ns \<Longrightarrow> ns \<noteq> [] \<Longrightarrow> str_contains ns (hay @ [q]) = str_contains ns hay"
proof (induction hay)
  case Nil
  then show ?case by (cases ns) auto
next
  case (Cons h hay)
  from Cons.prems(1) have "starts_with ns ((h # hay) @ [q]) = starts_with ns (h # hay)"
    by (rule starts_with_snoc)
  with Cons show ?case by simp
qed

lemma str_contains_skip:
  "n \<notin> set skipped \<Longrightarrow> str_contains (n # ns) (skipped @ hay) = str_contains (n # ns) hay"
  by (induction skipped) auto

lemma hexchar_lowercase: "hexchar n \<in> set ''0123456789abcdef''"
proof -
  have "nat (n mod 16) < length ''0123456789abcdef''" by simp
  then show ?thesis unfolding hexchar_def by (rule nth_mem)
qed

lemma hexchar_not_L: "hexchar n \<noteq> CHR ''L''" "CHR ''L'' \<noteq> hexchar n"
  using hexchar_lowercase [of n] by auto

lemma repr_byte_cases:
  assumes "quote \<noteq> CHR ''L''"
  shows "repr_byte quote c = [c] \<and> c \<noteq> backslash
    \<or> (\<exists>tail. repr_byte quote c = backslash # tail \<and> CHR ''L'' \<notin> set tail)"
  using assms
  by (auto simp add: repr_byte_def Let_def hex_byte_def backslash_def hexchar_not_L)

lemma repr_byte_backslash: "repr_byte quote backslash = [backslash, backslash]"
  by (simp add: repr_byte_def)

lemma starts_with_repr:
  assumes "quote \<noteq> CHR ''L''"
    and "\<forall>n \<in> set ns. repr_byte quote n = [n]"
  shows "starts_with ns (concat (map (repr_byte quote) bs)) = starts_with ns bs"
  using assms(2)
proof (induction ns arbitrary: bs)
  case Nil
  then show ?case by simp
next
  case (Cons n ns)
  show ?case
  proof (cases bs)
    case Nil
    then show ?thesis by simp
  next
    case (Cons c cs)
    from Cons.prems have "repr_byte quote n = [n]" by simp
    with repr_byte_backslash [of quote] have n: "n \<noteq> backslash" by auto
    from repr_byte_cases [OF assms(1), of c] show ?thesis
    proof
      assume "repr_byte quote c = [c] \<and> c \<noteq> backslash"
      with Cons Cons.IH [of cs] Cons.prems show ?thesis by simp
    next
      assume "\<exists>tail. repr_byte quote c = backslash # tail \<and> CHR ''L'' \<notin> set tail"
      then obtain tail where tail: "repr_byte quote c = backslash # tail" by blast
      with Cons.prems n have "n \<noteq> c" by auto
      with tail n Cons show ?thesis by simp
    qed
  qed
qed

lemma str_contains_repr:
  assumes "quote \<noteq> CHR ''L''"
    and "\<forall>n \<in> set ns. repr_byte quote n = [n]"
  shows "str_contains (CHR ''L'' # ns) (concat (map (repr_byte quote) bs))
       = str_contains (CHR ''L'' # ns) bs"
proof (induction bs)
  case Nil
  then show ?case by simp
next
  case (Cons c cs)
  from repr_byte_cases [OF assms(1), of c] show ?case
  proof
    assume plain: "repr_byte quote c = [c] \<and> c \<noteq> backslash"
    have "starts_with ns (concat (map (repr_byte quote) cs)) = starts_with ns cs"
      using assms by (rule starts_with_repr)
    with plain Cons show ?thesis by simp
  next
    assume "\<exists>tail. repr_byte quote c = backslash # tail \<and> CHR ''L'' \<notin> set tail"
    then obtain tail where tail: "repr_byte quote c = backslash # tail"
      and L: "CHR ''L'' \<notin> set tail" by blast
    have "CHR ''L'' \<notin> set (backslash # tail)"
      using L by (simp add: backslash_def)
    then have "str_contains (CHR ''L'' # ns) ((backslash # tail) @ concat (map (repr_byte quote) cs))
        = str_contains (CHR ''L'' # ns) (concat (map (repr_byte quote) cs))"
      by (rule str_contains_skip)
    moreover have "c \<noteq> CHR ''L''"
    proof
      assume L: "c = CHR ''L''"
      then have "repr_byte quote c = [c]"
        using assms(1) by (simp add: repr_byte_def Let_def backslash_def)
      with tail L show False by (simp add: backslash_def)
    qed
    ultimately show ?thesis using tail Cons by simp
  qed
qed

lemma marker_plain:
  "\<forall>n \<in> set ''icense Terms:''. repr_byte (CHR 0x27) n = [n]"
  "\<forall>n \<in> set ''icense Terms:''. repr_byte (CHR 0x22) n = [n]"
  by (simp_all add: repr_byte_def backslash_def)

lemma license_marker_in_str_of_bytes:
  "str_contains ''License Terms:'' (str_of_bytes bs) = str_contains ''License Terms:'' bs"
proof -
  define quote where "quote = bytes_quote bs"
  have quote: "quote = CHR 0x27 \<or> quote = CHR 0x22"
    by (simp add: quote_def bytes_quote_def)
  then have not_L: "quote \<noteq> CHR ''L''" by auto
  from quote have plain: "\<forall>n \<in> set ''icense Terms:''. repr_byte quote n = [n]"
    using marker_plain by blast
  from quote have not_in: "quote \<notin> set ''License Terms:''" by auto
  have "str_contains ''License Terms:'' (str_of_bytes bs)
      = str_contains ''License Terms:''
          ([CHR ''b'', quote] @ (concat (map (repr_byte quote) bs) @ [quote]))"
    by (simp add: str_of_bytes_def quote_def Let_def)
  also have "\<dots> = str_contains ''License Terms:'' (concat (map (repr_byte quote) bs) @ [quote])"
    using not_L by (intro str_contains_skip) auto
  also have "\<dots> = str_contains ''License Terms:'' (concat (map (repr_byte quote) bs))"
    using not_in by (intro str_contains_snoc) auto
  also have "\<dots> = str_contains ''License Terms:'' bs"
    using not_L plain by (rule str_contains_repr)
  finally show ?thesis .
qed

section \<open>The license handshake\<close>

text \<open>
  The request the call starts with, and the request it builds after a response that
  presents the license terms.
\<close>

lemma callMovebankAPI_first_request:
  assumes "callMovebankAPI get environ self params0 w0 = (result, issued, w)"
  shows "issued \<noteq> []
    \<and> hd issued = \<lparr>url = direct_read, params = params0, cookies = None,
                     auth = (username self, password self)\<rparr>"
  using assms
  by (auto simp add: callMovebankAPI_def Let_def split: prod.splits sum.splits if_splits)

lemma license_retry_request:
  assumes "get w0 \<lparr>url = direct_read, params = params0, cookies = None,
                    auth = (username self, password self)\<rparr> = (Inr response1, w1)"
    and "status_code response1 = 200"
    and "str_contains ''License Terms:'' (content response1)"
    and "environ ''mbus'' = Some mbus" and "environ ''mbpw'' = Some mbpw"
    and "callMovebankAPI get environ self params0 w0 = (result, issued, w)"
  shows "issued =
      [\<lparr>url = direct_read, params = params0, cookies = None,
         auth = (username self, password self)\<rparr>,
       \<lparr>url = direct_read,
         params = params0 @ [(''license-md5'', hexdigest (md5 (content response1)))],
         cookies = Some (response_cookies response1),
         auth = (mbus, mbpw)\<rparr>]"
  using assms
  by (auto simp add: callMovebankAPI_def Let_def getitem_def license_marker_in_str_of_bytes
      split: prod.splits sum.splits if_splits)

text \<open>
  Claim C7. The call issues at most two requests. Whenever it issued a second request
  and the response to that request has status 403, the call returns the empty string,
  not an exception, and the network is left in the state after the second request: no
  third request is issued.
\<close>

theorem C7_second_rejection:
  assumes "callMovebankAPI get environ self params0 w0 = (result, issued, w)"
  shows "length issued \<le> 2
    \<and> (\<forall>request1 request2 response2 w2.
          issued = [request1, request2]
          \<and> get (snd (get w0 request1)) request2 = (Inr response2, w2)
          \<and> status_code response2 = 403
          \<longrightarrow> result = Inr [] \<and> w = w2)"
proof -
  from assms have "length issued \<le> 2"
    by (auto simp add: callMovebankAPI_def Let_def split: prod.splits sum.splits if_splits)
  moreover
  have "result = Inr [] \<and> w = w2"
    if "issued = [request1, request2]"
      and "get (snd (get w0 request1)) request2 = (Inr response2, w2)"
      and "status_code response2 = 403"
    for request1 request2 response2 w2
    using assms that
    by (auto simp add: callMovebankAPI_def Let_def split: prod.splits sum.splits if_splits)
  ultimately show ?thesis by blast
qed

lemma rejected_handshake:
  "callMovebankAPI (server ''0'') environ_bob alice event_params 0 =
     (Inr [],
      [\<lparr>url = direct_read, params = event_params, cookies = None,
         auth = (''alice'', ''secret'')\<rparr>,
       \<lparr>url = direct_read,
         params = event_params @ [(''license-md5'', ''bb037906d3901362f11adc2726587223'')],
         cookies = Some [(''JSESSIONID'', ''A1'')],
         auth = (''bob'', ''hunter2'')\<rparr>],
      2)"
  by code_simp

lemma second_response_rejected:
  "server ''0''
     (snd (server ''0'' 0 \<lparr>url = direct_read, params = event_params, cookies = None,
                              auth = (''alice'', ''secret'')\<rparr>))
     \<lparr>url = direct_read,
       params = event_params @ [(''license-md5'', ''bb037906d3901362f11adc2726587223'')],
       cookies = Some [(''JSESSIONID'', ''A1'')],
       auth = (''bob'', ''hunter2'')\<rparr>
   = (Inr \<lparr>status_code = 403, content = ''Forbidden'', response_cookies = []\<rparr>, 2)"
  by code_simp

theorem C7_second_rejection_witness:
  "callMovebankAPI (server ''0'') environ_bob alice event_params 0 =
     (Inr [],
      [\<lparr>url = direct_read, params = event_params, cookies = None,
         auth = (''alice'', ''secret'')\<rparr>,
       \<lparr>url = direct_read,
         params = event_params @ [(''license-md5'', ''bb037906d3901362f11adc2726587223'')],
         cookies = Some [(''JSESSIONID'', ''A1'')],
         auth = (''bob'', ''hunter2'')\<rparr>],
      2)
   \<and> server ''0''
     (snd (server ''0'' 0 \<lparr>url = direct_read, params = event_params, cookies = None,
                              auth = (''alice'', ''secret'')\<rparr>))
     \<lparr>url = direct_read,
       params = event_params @ [(''license-md5'', ''bb037906d3901362f11adc2726587223'')],
       cookies = Some [(''JSESSIONID'', ''A1'')],
       auth = (''bob'', ''hunter2'')\<rparr>
     = (Inr \<lparr>status_code = 403, content = ''Forbidden'', response_cookies = []\<rparr>, 2)
   \<and> length
       [\<lparr>url = direct_read, params = event_params, cookies = None,
          auth = (''alice'', ''secret'')\<rparr>,
        \<lparr>url = direct_read,
          params = event_params @ [(''license-md5'', ''bb037906d3901362f11adc2726587223'')],
          cookies = Some [(''JSESSIONID'', ''A1'')],
          auth = (''bob'', ''hunter2'')\<rparr>] \<le> 2"
  using C7_second_rejection [OF rejected_handshake] rejected_handshake second_response_rejected
  by simp

section \<open>Credentials of the second request\<close>

text \<open>
  Claim C8 does not hold of the code: the first request is authenticated with the
  credentials of the object, the second with the values of the environment variables
  \<^verbatim>\<open>mbus\<close> and \<^verbatim>\<open>mbpw\<close>. For the object of user alice in an environment that names
  user bob, the two requests carry different credentials.
\<close>

theorem C8_second_request_credentials:
  "map auth (fst (snd (callMovebankAPI (server ''bb037906d3901362f11adc2726587223'')
                        environ_bob alice event_params 0)))
     = [(''alice'', ''secret''), (''bob'', ''hunter2'')]
   \<and> fst (callMovebankAPI (server ''bb037906d3901362f11adc2726587223'')
            environ_bob alice event_params 0) = Inr ''timestamp,deployment_id''"
  by code_simp

section \<open>The second request of the handshake\<close>

text \<open>
  Claim C1 does not hold of the code for every first response: the credentials of the
  second request are read from the environment before the request is issued, and in an
  environment without the variable \<^verbatim>\<open>mbus\<close> the call raises \<^verbatim>\<open>KeyError\<close> after the first
  response, although that response has status 200 and presents the license terms. No
  second request is issued.
\<close>

theorem C1_no_second_request:
  "server ''bb037906d3901362f11adc2726587223'' 0
     \<lparr>url = direct_read, params = event_params, cookies = None,
       auth = (''alice'', ''secret'')\<rparr>
     = (Inr \<lparr>status_code = 200, content = license_terms,
              response_cookies = [(''JSESSIONID'', ''A1'')]\<rparr>, 1)
   \<and> str_contains ''License Terms:'' license_terms
   \<and> callMovebankAPI (server ''bb037906d3901362f11adc2726587223'') Map.empty alice
       event_params 0
     = (Inl (KeyError ''mbus''),
        [\<lparr>url = direct_read, params = event_params, cookies = None,
           auth = (''alice'', ''secret'')\<rparr>],
        1)"
  by code_simp

text \<open>
  The digest is written with the sixteen lowercase hexadecimal digits, two for each of
  its bytes, and is the MD5 of the license terms the example server presents.
\<close>

lemma hexdigest_lowercase: "set (hexdigest digest) \<subseteq> set ''0123456789abcdef''"
  using hexchar_lowercase by (auto simp add: hexdigest_def hex_byte_def)

lemma hexdigest_length: "length (hexdigest digest) = 2 * length digest"
  by (induction digest) (simp_all add: hexdigest_def hex_byte_def)

lemma md5_license_terms:
  "hexdigest (md5 license_terms) = ''bb037906d3901362f11adc2726587223''"
  by code_simp

lemma md5_test_suite:
  "hexdigest (md5 []) = ''d41d8cd98f00b204e9800998ecf8427e''"
  "hexdigest (md5 ''abc'') = ''900150983cd24fb0d6963f7d28e17f72''"
  by code_simp+

end
